theory Spec2Isabelle
  imports Main
begin

section \<open>Python exceptions, effects and the pandas operations of helper.py\<close>

text \<open>
  The helpers of \<^verbatim>\<open>helper.py\<close> are thin layers over geopandas, pandas, fiona,
  numpy, PIL and matplotlib. The embedding keeps the control flow of each helper as it is
  written and takes the library entry points whose sources are not part of the repository
  as parameters. The pandas indexing operations the helpers rely on (column lookup,
  \<^verbatim>\<open>isin\<close>, boolean-mask selection) and numpy's slicing are written out.

  \<open>exn\<close> stands for instances of Python's \<^verbatim>\<open>Exception\<close> class, the ones an
  \<^verbatim>\<open>except Exception\<close> clause catches.
\<close>

datatype exn =
    KeyError string
  | IndexError string
  | TypeError string
  | StopIteration
  | LibraryError string

text \<open>\<^verbatim>\<open>str(e)\<close>, as \<^verbatim>\<open>print(e)\<close> shows it; a KeyError prints the repr of its key.\<close>

fun str_exn :: "exn \<Rightarrow> string" where
  "str_exn (KeyError k) = CHR 0x27 # k @ [CHR 0x27]"
| "str_exn (IndexError m) = m"
| "str_exn (TypeError m) = m"
| "str_exn StopIteration = []"
| "str_exn (LibraryError m) = m"

type_synonym path = string
type_synonym ref = nat

text \<open>
  A feature is a geometry with its attribute row; a cell that a row does not hold reads
  as \<open>None\<close> (pandas' NaN). A frame is a GeoDataFrame: coordinate reference system,
  attribute columns, rows in order.
\<close>

record ('g, 'v) feature =
  geometry :: 'g
  properties :: "(string \<times> 'v) list"

record ('g, 'v) frame =
  crs :: string
  columns :: "string list"
  rows :: "('g, 'v) feature list"

text \<open>
  Standard output is part of every state a helper prints in. The world
  \<^verbatim>\<open>subset_aoi\<close> runs in adds the GeoDataFrame objects the caller holds (the
  arguments are references to them) and the vector files on disk.
\<close>

record console =
  stdout :: "string list"

record ('g, 'v) world = console +
  objs :: "ref \<Rightarrow> ('g, 'v) frame"
  files :: "path \<Rightarrow> ('g, 'v) frame option"

text \<open>A computation on a state \<open>'s\<close> that returns a value or raises.\<close>

type_synonym ('s, 'a) io = "'s \<Rightarrow> (exn + 'a) \<times> 's"

definition io_return :: "'a \<Rightarrow> ('s, 'a) io" where
  "io_return x = (\<lambda>w. (Inr x, w))"

definition io_lift :: "exn + 'a \<Rightarrow> ('s, 'a) io" where
  "io_lift r = (\<lambda>w. (r, w))"

definition io_bind :: "('s, 'a) io \<Rightarrow> ('a \<Rightarrow> ('s, 'b) io) \<Rightarrow> ('s, 'b) io" where
  "io_bind m f = (\<lambda>w. case m w of (Inl e, w') \<Rightarrow> (Inl e, w') | (Inr x, w') \<Rightarrow> f x w')"

text \<open>\<^verbatim>\<open>try: body except Exception as e: handler\<close>\<close>

definition try_except :: "('s, 'a) io \<Rightarrow> (exn \<Rightarrow> ('s, 'a) io) \<Rightarrow> ('s, 'a) io" where
  "try_except body handler =
     (\<lambda>w. case body w of (Inl e, w') \<Rightarrow> handler e w' | (Inr x, w') \<Rightarrow> (Inr x, w'))"

text \<open>\<^verbatim>\<open>print(s)\<close> adds a line to standard output; it is taken not to raise.\<close>

definition print_line :: "string \<Rightarrow> ('s console_scheme, unit) io" where
  "print_line s = (\<lambda>w. (Inr (), w\<lparr>stdout := stdout w @ [s]\<rparr>))"

text \<open>Reading the object a parameter refers to.\<close>

definition deref :: "ref \<Rightarrow> (('g, 'v) world, ('g, 'v) frame) io" where
  "deref r = (\<lambda>w. (Inr (objs w r), w))"

text \<open>\<^verbatim>\<open>df[name]\<close> (then \<^verbatim>\<open>.values\<close>): the column's cells in row order, KeyError when
  the frame has no such column.\<close>

definition getitem_col :: "('g, 'v) frame \<Rightarrow> string \<Rightarrow> exn + 'v option list" where
  "getitem_col df name =
     (if name \<in> set (columns df)
      then Inr (map (\<lambda>r. map_of (properties r) name) (rows df))
      else Inl (KeyError name))"

text \<open>\<^verbatim>\<open>series.isin(values)\<close>: one boolean per cell.\<close>

definition isin :: "'a list \<Rightarrow> 'a list \<Rightarrow> bool list" where
  "isin series vals = map (\<lambda>x. x \<in> set vals) series"

text \<open>\<^verbatim>\<open>df[mask]\<close>: a new frame with the rows whose mask entry is true.\<close>

definition getitem_mask :: "('g, 'v) frame \<Rightarrow> bool list \<Rightarrow> ('g, 'v) frame" where
  "getitem_mask df bmask = df\<lparr>rows := map fst (filter snd (zip (rows df) bmask))\<rparr>"

text \<open>A frame restricted to the rows whose cell in one column is among given values;
  the theorems compare the helpers' results with it.\<close>

definition select_rows :: "('g, 'v) frame \<Rightarrow> string \<Rightarrow> 'v option list \<Rightarrow> ('g, 'v) frame" where
  "select_rows df name vals =
     df\<lparr>rows := filter (\<lambda>r. map_of (properties r) name \<in> set vals) (rows df)\<rparr>"

section \<open>subset\_aoi\<close>

text \<open>
  The geopandas entry points \<^verbatim>\<open>subset_aoi\<close> calls. Each may raise, and each runs in
  the world: \<^verbatim>\<open>gpd.overlay(aoi, shape, how=...)\<close>,
  \<^verbatim>\<open>gpd.tools.sjoin(aoi, shape, how=..., op=...)\<close> and \<^verbatim>\<open>frame.to_file(path)\<close>.
\<close>

record ('g, 'v) geolib =
  overlay :: "ref \<Rightarrow> ref \<Rightarrow> string \<Rightarrow> (('g, 'v) world, ('g, 'v) frame) io"
  sjoin :: "ref \<Rightarrow> ref \<Rightarrow> string \<Rightarrow> string \<Rightarrow> (('g, 'v) world, ('g, 'v) frame) io"
  to_file :: "('g, 'v) frame \<Rightarrow> path \<Rightarrow> (('g, 'v) world, unit) io"

text \<open>Lines 46 to 51, the branch \<^verbatim>\<open>if intersect\<close>. The first message is not an
  f-string in the source, so the braces are printed as they stand; \<^verbatim>\<open>del new\<close> unbinds
  a local name and has no other effect.\<close>

definition intersect_branch ::
  "('g, 'v) geolib \<Rightarrow> ref \<Rightarrow> ref \<Rightarrow> path \<Rightarrow> (('g, 'v) world, bool) io" where
  "intersect_branch lib aoi shape save_fp =
     io_bind (print_line ''Intersecting {save_fp} with aoi...'') (\<lambda>_.
     io_bind (overlay lib aoi shape ''intersection'') (\<lambda>new.
     io_bind (print_line ''Dumping to new shapefile to file...'') (\<lambda>_.
     io_bind (to_file lib new save_fp) (\<lambda>_.
     io_return True))))"

text \<open>Lines 55 to 59, the branch \<^verbatim>\<open>else\<close>. The first assignment to
  \<^verbatim>\<open>osm_id\<close> is overwritten before it is read. In
  \<^verbatim>\<open>shape[shape['osm_id'].isin(osm_id)]\<close> the column is looked up in the object
  \<open>shape\<close> refers to after the join has run.\<close>

definition join_branch ::
  "('g, 'v) geolib \<Rightarrow> ref \<Rightarrow> ref \<Rightarrow> path \<Rightarrow> (('g, 'v) world, bool) io" where
  "join_branch lib aoi shape save_fp =
     io_bind (sjoin lib aoi shape ''inner'' ''intersects'') (\<lambda>temp_shape.
     io_bind (io_lift (getitem_col temp_shape ''osm_id'')) (\<lambda>osm_id.
     io_bind (deref shape) (\<lambda>shape_df.
     io_bind (io_lift (getitem_col shape_df ''osm_id'')) (\<lambda>col.
     io_bind (to_file lib (getitem_mask shape_df (isin col osm_id)) save_fp) (\<lambda>_.
     io_return True)))))"

text \<open>Lines 62 to 68, the body of the inner \<^verbatim>\<open>try\<close>.\<close>

definition fallback ::
  "('g, 'v) geolib \<Rightarrow> exn \<Rightarrow> ref \<Rightarrow> ref \<Rightarrow> path \<Rightarrow> (('g, 'v) world, bool) io" where
  "fallback lib e aoi shape save_fp =
     io_bind (print_line (str_exn e)) (\<lambda>_.
     io_bind (print_line ''Trying a join method to compare polygon and 1D/dot geometries.'') (\<lambda>_.
     io_bind (sjoin lib aoi shape ''inner'' ''intersects'') (\<lambda>temp_shape.
     io_bind (io_lift (getitem_col temp_shape ''osm_id'')) (\<lambda>osm_id.
     io_bind (deref shape) (\<lambda>shape_df.
     io_bind (io_lift (getitem_col shape_df ''osm_id'')) (\<lambda>col.
     io_bind (to_file lib (getitem_mask shape_df (isin col osm_id)) save_fp) (\<lambda>_.
     io_return True)))))))"

text \<open>Lines 70 to 72, the last handler.\<close>

definition give_up :: "exn \<Rightarrow> (('g, 'v) world, bool) io" where
  "give_up e =
     io_bind (print_line (str_exn e)) (\<lambda>_.
     io_bind (print_line ''Error dumping to file, giving up!'') (\<lambda>_.
     io_return False))"

text \<open>The body of the outer \<^verbatim>\<open>try\<close>: the computation the caller chose.\<close>

definition chosen ::
  "('g, 'v) geolib \<Rightarrow> ref \<Rightarrow> ref \<Rightarrow> path \<Rightarrow> bool \<Rightarrow> (('g, 'v) world, bool) io" where
  "chosen lib aoi shape save_fp intersect =
     (if intersect then intersect_branch lib aoi shape save_fp
      else join_branch lib aoi shape save_fp)"

definition subset_aoi ::
  "('g, 'v) geolib \<Rightarrow> ref \<Rightarrow> ref \<Rightarrow> path \<Rightarrow> bool \<Rightarrow> (('g, 'v) world, bool) io" where
  "subset_aoi lib aoi shape save_fp intersect =
     try_except (chosen lib aoi shape save_fp intersect)
       (\<lambda>e. try_except (fallback lib e aoi shape save_fp) give_up)"


subsection \<open>What the theorems ask of geopandas\<close>

text \<open>A computation leaves the caller's frames as they are.\<close>

definition io_keeps_objs :: "(('g, 'v) world, 'a) io \<Rightarrow> bool" where
  "io_keeps_objs m = (\<forall>w. objs (snd (m w)) = objs w)"

definition lib_keeps_objs :: "('g, 'v) geolib \<Rightarrow> bool" where
  "lib_keeps_objs lib =
     ((\<forall>a b h. io_keeps_objs (overlay lib a b h)) \<and>
      (\<forall>a b h p. io_keeps_objs (sjoin lib a b h p)) \<and>
      (\<forall>d p. io_keeps_objs (to_file lib d p)))"

text \<open>A computation changes no file but the one at \<open>p\<close>.\<close>

definition io_writes_only :: "path \<Rightarrow> (('g, 'v) world, 'a) io \<Rightarrow> bool" where
  "io_writes_only p m = (\<forall>w q. q \<noteq> p \<longrightarrow> files (snd (m w)) q = files w q)"

definition io_keeps_files :: "(('g, 'v) world, 'a) io \<Rightarrow> bool" where
  "io_keeps_files m = (\<forall>w. files (snd (m w)) = files w)"

text \<open>The overlay and the join write no file; \<^verbatim>\<open>to_file\<close> writes at its path only.\<close>

definition lib_writes_only :: "('g, 'v) geolib \<Rightarrow> bool" where
  "lib_writes_only lib =
     ((\<forall>a b h. io_keeps_files (overlay lib a b h)) \<and>
      (\<forall>a b h k. io_keeps_files (sjoin lib a b h k)) \<and>
      (\<forall>d p. io_writes_only p (to_file lib d p)))"

text \<open>When \<^verbatim>\<open>to_file\<close> returns, the file at the path holds the frame.\<close>

definition to_file_writes :: "('g, 'v) geolib \<Rightarrow> bool" where
  "to_file_writes lib =
     (\<forall>d p w. fst (to_file lib d p w) = Inr () \<longrightarrow> files (snd (to_file lib d p w)) p = Some d)"

text \<open>What \<^verbatim>\<open>sjoin\<close> returns or raises is decided by the two frames it is given.\<close>

definition sjoin_functional :: "('g, 'v) geolib \<Rightarrow> bool" where
  "sjoin_functional lib =
     (\<forall>a b h k w w'. objs w a = objs w' a \<and> objs w b = objs w' b \<longrightarrow>
        fst (sjoin lib a b h k w) = fst (sjoin lib a b h k w'))"

subsection \<open>A small geometry library to run the helper on\<close>

text \<open>
  One-dimensional stand-ins for the geometries: a point and a closed span. The overlay
  refuses points, as the polygon overlay does; the spatial join pairs every row of the
  left frame with the rows of the right frame that meet it; writing fails on the empty path.
\<close>

datatype geom = Point int | Span int int

fun lo :: "geom \<Rightarrow> int" where
  "lo (Point x) = x"
| "lo (Span a b) = a"

fun hi :: "geom \<Rightarrow> int" where
  "hi (Point x) = x"
| "hi (Span a b) = b"

fun is_span :: "geom \<Rightarrow> bool" where
  "is_span (Point x) = False"
| "is_span (Span a b) = True"

definition intersects :: "geom \<Rightarrow> geom \<Rightarrow> bool" where
  "intersects g h = (max (lo g) (lo h) \<le> min (hi g) (hi h))"

definition toy_overlay :: "ref \<Rightarrow> ref \<Rightarrow> string \<Rightarrow> ((geom, string) world, (geom, string) frame) io" where
  "toy_overlay a b how = (\<lambda>w.
     if how = ''intersection'' \<and> list_all (\<lambda>r. is_span (geometry r)) (rows (objs w a) @ rows (objs w b))
     then (Inr \<lparr>crs = crs (objs w a), columns = columns (objs w a) @ columns (objs w b),
                rows = concat (map (\<lambda>ra. map (\<lambda>rb.
                   \<lparr>geometry = Span (max (lo (geometry ra)) (lo (geometry rb)))
                                     (min (hi (geometry ra)) (hi (geometry rb))),
                    properties = properties ra @ properties rb\<rparr>)
                   (filter (\<lambda>rb. intersects (geometry ra) (geometry rb)) (rows (objs w b))))
                   (rows (objs w a)))\<rparr>, w)
     else (Inl (LibraryError ''overlay takes polygon geometries only''), w))"

definition toy_sjoin ::
  "ref \<Rightarrow> ref \<Rightarrow> string \<Rightarrow> string \<Rightarrow> ((geom, string) world, (geom, string) frame) io" where
  "toy_sjoin a b how k = (\<lambda>w.
     if how = ''inner'' \<and> k = ''intersects''
     then (Inr \<lparr>crs = crs (objs w a), columns = columns (objs w a) @ columns (objs w b),
                rows = concat (map (\<lambda>ra. map (\<lambda>rb.
                   \<lparr>geometry = geometry ra, properties = properties ra @ properties rb\<rparr>)
                   (filter (\<lambda>rb. intersects (geometry ra) (geometry rb)) (rows (objs w b))))
                   (rows (objs w a)))\<rparr>, w)
     else (Inl (LibraryError ''unsupported join''), w))"

definition toy_to_file :: "(geom, string) frame \<Rightarrow> path \<Rightarrow> ((geom, string) world, unit) io" where
  "toy_to_file d p = (\<lambda>w.
     if p = [] then (Inl (LibraryError ''no such file or directory''), w)
     else (Inr (), w\<lparr>files := (files w)(p := Some d)\<rparr>))"

definition toy_lib :: "(geom, string) geolib" where
  "toy_lib = \<lparr>overlay = toy_overlay, sjoin = toy_sjoin, to_file = toy_to_file\<rparr>"

text \<open>An area of interest, and three roads: the first and the last meet the area, and the
  last is a point.\<close>

definition toy_aoi :: "(geom, string) frame" where
  "toy_aoi = \<lparr>crs = ''EPSG:4326'', columns = [''name''],
     rows = [\<lparr>geometry = Span 0 10, properties = [(''name'', ''LA'')]\<rparr>]\<rparr>"

definition toy_roads :: "(geom, string) frame" where
  "toy_roads = \<lparr>crs = ''EPSG:4326'', columns = [''osm_id''],
     rows = [\<lparr>geometry = Span 5 20, properties = [(''osm_id'', ''7'')]\<rparr>,
             \<lparr>geometry = Span 30 40, properties = [(''osm_id'', ''8'')]\<rparr>,
             \<lparr>geometry = Point 3, properties = [(''osm_id'', ''9'')]\<rparr>]\<rparr>"

text \<open>Roads without the identifier column.\<close>

definition toy_lanes :: "(geom, string) frame" where
  "toy_lanes = \<lparr>crs = ''EPSG:4326'', columns = [''ref''],
     rows = [\<lparr>geometry = Span 5 20, properties = [(''ref'', ''7'')]\<rparr>]\<rparr>"

definition toy_world :: "(geom, string) world" where
  "toy_world = \<lparr>stdout = [],
     objs = (\<lambda>r. if r = 0 then toy_aoi else if r = 1 then toy_roads else toy_lanes),
     files = (\<lambda>p. None)\<rparr>"

section \<open>load\_shapefile\<close>

text \<open>
  \<^verbatim>\<open>gpd.read_file\<close> is the parameter \<open>read_file\<close>. \<^verbatim>\<open>if zipcodes:\<close> tests the list
  for emptiness. An error of the reader or of the column lookup goes to the caller.
\<close>

definition load_shapefile ::
  "(path \<Rightarrow> exn + ('g, 'v) frame) \<Rightarrow> path \<Rightarrow> 'v option list \<Rightarrow> exn + ('g, 'v) frame" where
  "load_shapefile read_file fp zipcodes =
     (case read_file fp of
        Inl e \<Rightarrow> Inl e
      | Inr data \<Rightarrow>
          if zipcodes \<noteq> [] then
            (case getitem_col data ''ZCTA5CE10'' of
               Inl e \<Rightarrow> Inl e
             | Inr col \<Rightarrow> Inr (getitem_mask data (isin col zipcodes)))
          else Inr data)"

definition toy_zcta :: "(geom, string) frame" where
  "toy_zcta = \<lparr>crs = ''EPSG:4269'', columns = [''ZCTA5CE10''],
     rows = [\<lparr>geometry = Span 0 1, properties = [(''ZCTA5CE10'', ''90001'')]\<rparr>,
             \<lparr>geometry = Span 1 2, properties = [(''ZCTA5CE10'', ''90002'')]\<rparr>,
             \<lparr>geometry = Span 2 3, properties = [(''ZCTA5CE10'', ''90003'')]\<rparr>]\<rparr>"

definition toy_read_file :: "path \<Rightarrow> exn + (geom, string) frame" where
  "toy_read_file fp =
     (if fp = ''zcta.shp'' then Inr toy_zcta else Inl (LibraryError ''no such file or directory''))"

section \<open>plot\_shapefile\<close>

text \<open>
  A value of the settings dictionary is a string or an iterator over colours; an
  iterator is the list of the items it has yet to yield. \<^verbatim>\<open>iter(sns.color_palette("Paired"))\<close>
  is an iterator over the palette's list, the parameter \<open>palette\<close>. A layer is drawn
  with a colour that is a string or an item of the palette.
\<close>

datatype 'c setting = Str string | Iter "'c list"

datatype 'c colour = Named string | RGB 'c

type_synonym 'c settings = "string \<Rightarrow> 'c setting option"

text \<open>Lines 87 to 90.\<close>

definition default_settings :: "'c list \<Rightarrow> 'c settings" where
  "default_settings palette =
     [''save'' \<mapsto> Str '''', ''format'' \<mapsto> Str ''png'',
      ''edgecolor'' \<mapsto> Iter palette, ''color'' \<mapsto> Iter palette]"

text \<open>Lines 92 to 94; \<open>None\<close> is the default \<^verbatim>\<open>graph_settings=False\<close>, and an empty
  dictionary is false as well.\<close>

fun override :: "'c settings \<Rightarrow> (string \<times> 'c setting) list \<Rightarrow> 'c settings" where
  "override d [] = d"
| "override d ((k, v) # kvs) = override (d(k \<mapsto> v)) kvs"

definition merge_settings ::
  "'c settings \<Rightarrow> (string \<times> 'c setting) list option \<Rightarrow> 'c settings" where
  "merge_settings d graph_settings =
     (case graph_settings of
        None \<Rightarrow> d
      | Some kvs \<Rightarrow> if kvs \<noteq> [] then override d kvs else d)"

text \<open>
  Lines 103 to 106 and 107 to 110: a string is used as it is, anything else is advanced
  with \<^verbatim>\<open>next\<close>, which raises StopIteration on an exhausted iterator and leaves the
  other items in the dictionary's iterator.
\<close>

definition take_colour :: "string \<Rightarrow> 'c settings \<Rightarrow> exn + ('c colour \<times> 'c settings)" where
  "take_colour key d =
     (case d key of
        None \<Rightarrow> Inl (KeyError key)
      | Some (Str s) \<Rightarrow> Inr (Named s, d)
      | Some (Iter []) \<Rightarrow> Inl StopIteration
      | Some (Iter (c # cs)) \<Rightarrow> Inr (RGB c, d(key \<mapsto> Iter cs)))"

text \<open>A drawn layer: the layer, its fill colour and its edge colour.\<close>

type_synonym ('l, 'c) axes = "('l \<times> 'c colour \<times> 'c colour) list"

text \<open>Lines 101 to 113. The counter \<^verbatim>\<open>i\<close> is written and never read.\<close>

fun plot_loop ::
  "'c settings \<Rightarrow> ('l, 'c) axes \<Rightarrow> 'l list \<Rightarrow> exn + (('l, 'c) axes \<times> 'c settings)" where
  "plot_loop d ax [] = Inr (ax, d)"
| "plot_loop d ax (s # ss) =
     (case take_colour ''edgecolor'' d of
        Inl e \<Rightarrow> Inl e
      | Inr (edge, d1) \<Rightarrow>
          (case take_colour ''color'' d1 of
             Inl e \<Rightarrow> Inl e
           | Inr (col, d2) \<Rightarrow> plot_loop d2 (ax @ [(s, col, edge)]) ss))"

record ('l, 'c) figure =
  drawn :: "('l, 'c) axes"
  grid :: bool
  style :: string
  saved :: "(path \<times> string) option"

text \<open>Lines 114 to 117: a non-empty save path saves the figure in the given format.\<close>

definition save_figure :: "'c settings \<Rightarrow> exn + (path \<times> string) option" where
  "save_figure d =
     (case d ''save'' of
        None \<Rightarrow> Inl (KeyError ''save'')
      | Some (Str fp) \<Rightarrow>
          if fp \<noteq> [] then
            (case d ''format'' of
               None \<Rightarrow> Inl (KeyError ''format'')
             | Some (Str fmt) \<Rightarrow> Inr (Some (fp, fmt))
             | Some (Iter cs) \<Rightarrow> Inl (TypeError ''format is not a string''))
          else Inr None
      | Some (Iter cs) \<Rightarrow> Inl (TypeError ''save is not a path''))"

definition plot_shapefile ::
  "'c list \<Rightarrow> 'l list \<Rightarrow> (string \<times> 'c setting) list option \<Rightarrow> exn + ('l, 'c) figure" where
  "plot_shapefile palette shapefiles graph_settings =
     (case plot_loop (merge_settings (default_settings palette) graph_settings) [] shapefiles of
        Inl e \<Rightarrow> Inl e
      | Inr (ax, d) \<Rightarrow>
          (case save_figure d of
             Inl e \<Rightarrow> Inl e
           | Inr sv \<Rightarrow> Inr \<lparr>drawn = ax, grid = False, style = ''whitegrid'', saved = sv\<rparr>))"

section \<open>peel\_geodatabase\<close>

text \<open>
  A fiona collection: coordinate reference system, schema, features in order. The
  files the helper writes are shapefiles (a collection) and text files. The fiona and
  pandas entry points are parameters: \<^verbatim>\<open>fiona.listlayers\<close>, \<^verbatim>\<open>fiona.open\<close> for
  reading (given its keyword arguments), whether a path can be opened for writing, and
  \<^verbatim>\<open>pd.DataFrame(features).to_csv()\<close>.
\<close>

record ('g, 'v, 's) collection =
  coll_crs :: string
  coll_schema :: 's
  coll_features :: "('g, 'v) feature list"

datatype ('g, 'v, 's) out_file = Shapefile "('g, 'v, 's) collection" | TextFile string

record ('g, 'v, 's) disk = console +
  written :: "path \<Rightarrow> ('g, 'v, 's) out_file option"

record ('g, 'v, 's) fiona =
  listlayers :: "path \<Rightarrow> exn + string list"
  fiona_open :: "(string \<times> string) list \<Rightarrow> exn + ('g, 'v, 's) collection"
  writable :: "path \<Rightarrow> bool"
  to_csv :: "(string \<times> 'v) list list \<Rightarrow> string"

definition datasrc_path :: path where
  "datasrc_path = ''./data/2016blockgroupca.gdb''"

definition geometry_layer :: string where
  "geometry_layer = ''ACS_2016_5YR_BG_06_CALIFORNIA''"

definition shp_path :: "string \<Rightarrow> path" where
  "shp_path layer_name = ''./data/ACS2016/'' @ layer_name @ ''.shp''"

definition csv_path :: "string \<Rightarrow> path" where
  "csv_path layer_name = ''./data/ACS2016/'' @ layer_name @ ''.csv''"

text \<open>Lines 131 to 137.\<close>

definition open_kwargs :: "string \<Rightarrow> (string \<times> string) list" where
  "open_kwargs layer_name =
     (if layer_name = geometry_layer
      then [(''path'', datasrc_path), (''layer'', layer_name), (''driver'', ''OpenFileGDB'')]
      else [(''path'', datasrc_path), (''layer'', layer_name)])"

text \<open>Opening a shapefile for writing creates it with the given reference system and
  schema and no feature yet; it raises where the path cannot be written.\<close>

definition open_sink ::
  "('g, 'v, 's) fiona \<Rightarrow> path \<Rightarrow> string \<Rightarrow> 's \<Rightarrow> (('g, 'v, 's) disk, ('g, 'v, 's) collection) io" where
  "open_sink lib fp c s = (\<lambda>d.
     if writable lib fp
     then (Inr \<lparr>coll_crs = c, coll_schema = s, coll_features = []\<rparr>,
           d\<lparr>written := (written d)(fp \<mapsto> Shapefile \<lparr>coll_crs = c, coll_schema = s, coll_features = []\<rparr>)\<rparr>)
     else (Inl (LibraryError ''cannot open for writing''), d))"

text \<open>Lines 147 and 148: \<^verbatim>\<open>for feature in collection: sink.write(feature)\<close>.\<close>

fun write_all ::
  "('g, 'v, 's) collection \<Rightarrow> ('g, 'v) feature list \<Rightarrow> ('g, 'v, 's) collection" where
  "write_all sink [] = sink"
| "write_all sink (f # fs) = write_all (sink\<lparr>coll_features := coll_features sink @ [f]\<rparr>) fs"

text \<open>Leaving the \<^verbatim>\<open>with\<close> block closes the sink: the file holds what was written.\<close>

definition close_sink :: "path \<Rightarrow> ('g, 'v, 's) collection \<Rightarrow> (('g, 'v, 's) disk, unit) io" where
  "close_sink fp sink = (\<lambda>d. (Inr (), d\<lparr>written := (written d)(fp \<mapsto> Shapefile sink)\<rparr>))"

text \<open>Lines 151 and 152: \<^verbatim>\<open>for feature in collection: features.append(feature['properties'])\<close>.\<close>

fun append_properties ::
  "(string \<times> 'v) list list \<Rightarrow> ('g, 'v) feature list \<Rightarrow> (string \<times> 'v) list list" where
  "append_properties features [] = features"
| "append_properties features (f # fs) = append_properties (features @ [properties f]) fs"

text \<open>Lines 154 and 155.\<close>

definition write_text :: "('g, 'v, 's) fiona \<Rightarrow> path \<Rightarrow> string \<Rightarrow> (('g, 'v, 's) disk, unit) io" where
  "write_text lib fp s = (\<lambda>d.
     if writable lib fp
     then (Inr (), d\<lparr>written := (written d)(fp \<mapsto> TextFile s)\<rparr>)
     else (Inl (LibraryError ''cannot open for writing''), d))"

text \<open>The body of the loop over the layers, lines 130 to 155.\<close>

definition peel_layer :: "('g, 'v, 's) fiona \<Rightarrow> string \<Rightarrow> (('g, 'v, 's) disk, unit) io" where
  "peel_layer lib layer_name =
     io_bind (io_lift (fiona_open lib (open_kwargs layer_name))) (\<lambda>collection.
       if layer_name = geometry_layer then
         io_bind (print_line (''Dumping '' @ layer_name @ '' to shapefile'')) (\<lambda>_.
         io_bind (open_sink lib (shp_path layer_name) (coll_crs collection) (coll_schema collection)) (\<lambda>sink.
         close_sink (shp_path layer_name) (write_all sink (coll_features collection))))
       else
         io_bind (print_line (''Dumping '' @ layer_name @ '' to csv'')) (\<lambda>_.
         write_text lib (csv_path layer_name)
           (to_csv lib (append_properties [] (coll_features collection)))))"

fun peel_layers :: "('g, 'v, 's) fiona \<Rightarrow> string list \<Rightarrow> (('g, 'v, 's) disk, unit) io" where
  "peel_layers lib [] = io_return ()"
| "peel_layers lib (layer_name # layers) =
     io_bind (peel_layer lib layer_name) (\<lambda>_. peel_layers lib layers)"

definition peel_geodatabase :: "('g, 'v, 's) fiona \<Rightarrow> (('g, 'v, 's) disk, unit) io" where
  "peel_geodatabase lib =
     io_bind (io_lift (listlayers lib datasrc_path)) (\<lambda>layers. peel_layers lib layers)"

text \<open>What the loop is to leave on disk for a layer.\<close>

definition layer_path :: "string \<Rightarrow> path" where
  "layer_path layer_name =
     (if layer_name = geometry_layer then shp_path layer_name else csv_path layer_name)"

definition layer_file ::
  "('g, 'v, 's) fiona \<Rightarrow> string \<Rightarrow> ('g, 'v, 's) collection \<Rightarrow> ('g, 'v, 's) out_file" where
  "layer_file lib layer_name c =
     (if layer_name = geometry_layer then Shapefile c
      else TextFile (to_csv lib (map properties (coll_features c))))"

text \<open>A geodatabase of two layers to run the helper on.\<close>

definition toy_blockgroups :: "(geom, string, string) collection" where
  "toy_blockgroups = \<lparr>coll_crs = ''EPSG:4269'', coll_schema = ''Polygon; GEOID: str'',
     coll_features = [\<lparr>geometry = Span 0 1, properties = [(''GEOID'', ''060371011101'')]\<rparr>,
                      \<lparr>geometry = Span 1 2, properties = [(''GEOID'', ''060371011102'')]\<rparr>]\<rparr>"

definition toy_table :: "(geom, string, string) collection" where
  "toy_table = \<lparr>coll_crs = [], coll_schema = ''None; GEOID: str, B01001e1: str'',
     coll_features = [\<lparr>geometry = Point 0, properties = [(''GEOID'', ''060371011101''), (''B01001e1'', ''1543'')]\<rparr>,
                      \<lparr>geometry = Point 0, properties = [(''GEOID'', ''060371011102''), (''B01001e1'', ''2210'')]\<rparr>]\<rparr>"

fun toy_csv_row :: "(string \<times> string) list \<Rightarrow> string" where
  "toy_csv_row [] = []"
| "toy_csv_row ((k, v) # kvs) = '','' @ v @ toy_csv_row kvs"

definition toy_gdb :: "(geom, string, string) fiona" where
  "toy_gdb = \<lparr>
     listlayers = (\<lambda>p. if p = datasrc_path then Inr [''X01_AGE_AND_SEX'', geometry_layer]
                        else Inl (LibraryError ''no such file or directory'')),
     fiona_open = (\<lambda>kw.
        if map_of kw ''layer'' = Some geometry_layer \<and> map_of kw ''driver'' = Some ''OpenFileGDB''
        then Inr toy_blockgroups
        else if map_of kw ''layer'' = Some ''X01_AGE_AND_SEX'' then Inr toy_table
        else Inl (LibraryError ''no such layer'')),
     writable = (\<lambda>p. True),
     to_csv = (\<lambda>rs. concat (map (\<lambda>r. toy_csv_row r @ ''; '') rs))\<rparr>"

definition toy_disk :: "(geom, string, string) disk" where
  "toy_disk = \<lparr>stdout = [], written = (\<lambda>p. None)\<rparr>"

section \<open>show\_image\<close>

text \<open>
  \<^verbatim>\<open>np.array(Image.open(fp))\<close> is a two-dimensional array (row, column) for a
  single-band image and a three-dimensional one (row, column, band) otherwise. Slicing
  the third axis of a two-dimensional array raises IndexError; on a three-dimensional
  array a slice never raises, it keeps the bands its bounds cover.
\<close>

datatype 'a ndarray = Array2 "'a list list" | Array3 "'a list list list"

text \<open>\<^verbatim>\<open>im[:,:,k:]\<close>\<close>

definition bands_from :: "nat \<Rightarrow> 'a ndarray \<Rightarrow> exn + 'a ndarray" where
  "bands_from k im =
     (case im of
        Array2 a \<Rightarrow> Inl (IndexError ''too many indices for array'')
      | Array3 a \<Rightarrow> Inr (Array3 (map (map (drop k)) a)))"

text \<open>\<^verbatim>\<open>im[:,:,:k]\<close>\<close>

definition bands_upto :: "nat \<Rightarrow> 'a ndarray \<Rightarrow> exn + 'a ndarray" where
  "bands_upto k im =
     (case im of
        Array2 a \<Rightarrow> Inl (IndexError ''too many indices for array'')
      | Array3 a \<Rightarrow> Inr (Array3 (map (map (take k)) a)))"

text \<open>\<^verbatim>\<open>im[:,:,:]\<close>\<close>

definition all_bands :: "'a ndarray \<Rightarrow> exn + 'a ndarray" where
  "all_bands im =
     (case im of
        Array2 a \<Rightarrow> Inl (IndexError ''too many indices for array'')
      | Array3 a \<Rightarrow> Inr (Array3 a))"

text \<open>Lines 173 to 176, the band selection.\<close>

definition select_bands :: "bool \<Rightarrow> 'a ndarray \<Rightarrow> exn + 'a ndarray" where
  "select_bands infrared im = (if infrared then bands_from 1 im else bands_upto 3 im)"

text \<open>PIL and matplotlib: decoding the file, \<^verbatim>\<open>plt.imshow\<close> (which may refuse the
  array) and \<^verbatim>\<open>f.savefig\<close>.\<close>

record 'a imagelib =
  image_open :: "path \<Rightarrow> exn + 'a ndarray"
  imshow :: "'a ndarray \<Rightarrow> exn option"
  savefig :: "path \<Rightarrow> exn option"

record 'a canvas =
  displayed :: "'a ndarray"
  saved_as :: "path option"

definition show_image :: "'a imagelib \<Rightarrow> path \<Rightarrow> path \<Rightarrow> bool \<Rightarrow> exn + 'a canvas" where
  "show_image lib fp save_path infrared =
     (case image_open lib fp of
        Inl e \<Rightarrow> Inl e
      | Inr im0 \<Rightarrow>
          (case select_bands infrared im0 of
             Inl e \<Rightarrow> Inl e
           | Inr im \<Rightarrow>
               (case all_bands im of
                  Inl e \<Rightarrow> Inl e
                | Inr view \<Rightarrow>
                    (case imshow lib view of
                       Some e \<Rightarrow> Inl e
                     | None \<Rightarrow>
                         if save_path \<noteq> [] then
                           (case savefig lib save_path of
                              Some e \<Rightarrow> Inl e
                            | None \<Rightarrow> Inr \<lparr>displayed = view, saved_as = Some save_path\<rparr>)
                         else Inr \<lparr>displayed = view, saved_as = None\<rparr>))))"

text \<open>The array has three axes and every pixel has \<open>n\<close> bands.\<close>

definition has_bands :: "nat \<Rightarrow> 'a ndarray \<Rightarrow> bool" where
  "has_bands n im =
     (case im of
        Array2 a \<Rightarrow> False
      | Array3 a \<Rightarrow> list_all (list_all (\<lambda>px. length px = n)) a)"

text \<open>The slice \<^verbatim>\<open>im[:,:,b]\<close> of an array whose pixels have more than \<open>b\<close> bands.\<close>

definition band :: "nat \<Rightarrow> 'a ndarray \<Rightarrow> 'a list list" where
  "band b im = (case im of Array2 a \<Rightarrow> [] | Array3 a \<Rightarrow> map (map (\<lambda>px. px ! b)) a)"

definition toy_image :: "nat ndarray" where
  "toy_image = Array3 [[[10, 20, 30, 40], [11, 21, 31, 41]], [[12, 22, 32, 42], [13, 23, 33, 43]]]"

definition toy_rgb :: "nat ndarray" where
  "toy_rgb = Array3 [[[10, 20, 30], [11, 21, 31]]]"

text \<open>The decoded image has \<open>n\<close> bands: an array of two axes is the one band of a
  single-band image, an array of three axes has \<open>n\<close> values in every pixel.\<close>

definition image_bands :: "nat \<Rightarrow> 'a ndarray \<Rightarrow> bool" where
  "image_bands n im =
     (case im of
        Array2 a \<Rightarrow> n = 1
      | Array3 a \<Rightarrow> list_all (list_all (\<lambda>px. length px = n)) a)"

definition toy_gray :: "nat ndarray" where
  "toy_gray = Array2 [[10, 11], [12, 13]]"

definition toy_imagelib :: "nat imagelib" where
  "toy_imagelib = \<lparr>
     image_open = (\<lambda>p. if p = ''scene.tif'' then Inr toy_image
                        else Inl (LibraryError ''no such file or directory'')),
     imshow = (\<lambda>im. None),
     savefig = (\<lambda>p. None)\<rparr>"

section \<open>Properties of subset\_aoi\<close>

lemma io_bind_apply:
  "io_bind m f w = (case m w of (Inl e, w') \<Rightarrow> (Inl e, w') | (Inr x, w') \<Rightarrow> f x w')"
  by (simp add: io_bind_def)

lemma try_except_apply:
  "try_except body handler w =
     (case body w of (Inl e, w') \<Rightarrow> handler e w' | (Inr x, w') \<Rightarrow> (Inr x, w'))"
  by (simp add: try_except_def)

lemma intersect_branch_True:
  "intersect_branch lib aoi shape fp w = (Inr b, w') \<Longrightarrow> b"
  unfolding intersect_branch_def
  by (auto simp: io_bind_def io_return_def split: prod.splits sum.splits)

lemma join_branch_True:
  "join_branch lib aoi shape fp w = (Inr b, w') \<Longrightarrow> b"
  unfolding join_branch_def
  by (auto simp: io_bind_def io_return_def split: prod.splits sum.splits)

lemma fallback_True:
  "fallback lib e aoi shape fp w = (Inr b, w') \<Longrightarrow> b"
  unfolding fallback_def
  by (auto simp: io_bind_def io_return_def split: prod.splits sum.splits)

lemma chosen_True:
  "chosen lib aoi shape fp i w = (Inr b, w') \<Longrightarrow> b"
  by (auto simp: chosen_def dest: intersect_branch_True join_branch_True split: if_splits)

lemma give_up_apply:
  "give_up e w = (Inr False, w\<lparr>stdout := stdout w @ [str_exn e, ''Error dumping to file, giving up!'']\<rparr>)"
  by (simp add: give_up_def io_bind_def print_line_def io_return_def)

lemma subset_aoi_cases:
  "subset_aoi lib aoi shape save_fp intersect w =
     (case chosen lib aoi shape save_fp intersect w of
        (Inr r, w1) \<Rightarrow> (Inr True, w1)
      | (Inl e, w1) \<Rightarrow>
          (case fallback lib e aoi shape save_fp w1 of
             (Inr r, w2) \<Rightarrow> (Inr True, w2)
           | (Inl e2, w2) \<Rightarrow>
               (Inr False, w2\<lparr>stdout := stdout w2 @ [str_exn e2, ''Error dumping to file, giving up!'']\<rparr>)))"
  by (auto simp: subset_aoi_def try_except_apply give_up_apply
      dest: chosen_True fallback_True split: prod.splits sum.splits)

lemma fallback_join:
  "fallback lib e aoi shape save_fp w =
     join_branch lib aoi shape save_fp
       (w\<lparr>stdout := stdout w @ [str_exn e, ''Trying a join method to compare polygon and 1D/dot geometries.'']\<rparr>)"
  by (simp add: fallback_def join_branch_def io_bind_def print_line_def)

text \<open>
  C3. The retry (lines 62 to 68) is the \<^verbatim>\<open>else\<close> branch (lines 55 to 59) run after
  its two messages are printed: started on the same inputs and output path it makes the
  same join, the same selection of rows of \<open>shape\<close> and the same write, and ends with
  the same result.
\<close>

theorem fallback_is_join_branch:
  "fallback lib e aoi shape save_fp w =
     join_branch lib aoi shape save_fp
       (w\<lparr>stdout := stdout w @ [str_exn e, ''Trying a join method to compare polygon and 1D/dot geometries.'']\<rparr>)"
  by (simp add: fallback_def join_branch_def io_bind_def print_line_def)

lemma filter_zip_map: "map fst (filter snd (zip xs (map p xs))) = filter p xs"
  by (induction xs) auto

lemma mask_select:
  "getitem_col df name = Inr col \<Longrightarrow> getitem_mask df (isin col vals) = select_rows df name vals"
  by (auto simp: getitem_col_def getitem_mask_def isin_def select_rows_def filter_zip_map
      o_def split: if_splits)

text \<open>Every step of the helper is a library call or a read, so what the library calls
  leave alone the helper leaves alone.\<close>

lemma keeps_objs_bind:
  "io_keeps_objs m \<Longrightarrow> (\<And>x. io_keeps_objs (f x)) \<Longrightarrow> io_keeps_objs (io_bind m f)"
  unfolding io_keeps_objs_def io_bind_def
  by (auto split: prod.splits sum.splits) (metis snd_conv)+

lemma keeps_objs_try:
  "io_keeps_objs m \<Longrightarrow> (\<And>e. io_keeps_objs (h e)) \<Longrightarrow> io_keeps_objs (try_except m h)"
  unfolding io_keeps_objs_def try_except_def
  by (auto split: prod.splits sum.splits) (metis snd_conv)+

lemma keeps_objs_basic:
  "io_keeps_objs (print_line s)" "io_keeps_objs (io_return x)" "io_keeps_objs (io_lift r)"
  "io_keeps_objs (deref a)"
  by (simp_all add: io_keeps_objs_def print_line_def io_return_def io_lift_def deref_def)

lemma keeps_objs_lib:
  assumes "lib_keeps_objs lib"
  shows "io_keeps_objs (overlay lib a b h)" "io_keeps_objs (sjoin lib a b h k)"
    "io_keeps_objs (to_file lib d p)"
  using assms by (simp_all add: lib_keeps_objs_def)

lemma join_branch_keeps_objs:
  "lib_keeps_objs lib \<Longrightarrow> io_keeps_objs (join_branch lib aoi shape fp)"
  unfolding join_branch_def
  by (intro keeps_objs_bind keeps_objs_basic keeps_objs_lib)

lemma intersect_branch_keeps_objs:
  "lib_keeps_objs lib \<Longrightarrow> io_keeps_objs (intersect_branch lib aoi shape fp)"
  unfolding intersect_branch_def
  by (intro keeps_objs_bind keeps_objs_basic keeps_objs_lib)

lemma fallback_keeps_objs:
  "lib_keeps_objs lib \<Longrightarrow> io_keeps_objs (fallback lib e aoi shape fp)"
  unfolding fallback_def
  by (intro keeps_objs_bind keeps_objs_basic keeps_objs_lib)

lemma give_up_keeps_objs: "io_keeps_objs (give_up e)"
  unfolding give_up_def
  by (intro keeps_objs_bind keeps_objs_basic)

lemma chosen_keeps_objs:
  "lib_keeps_objs lib \<Longrightarrow> io_keeps_objs (chosen lib aoi shape fp i)"
  by (simp add: chosen_def join_branch_keeps_objs intersect_branch_keeps_objs)

lemma subset_aoi_keeps_objs:
  "lib_keeps_objs lib \<Longrightarrow> io_keeps_objs (subset_aoi lib aoi shape fp i)"
  unfolding subset_aoi_def
  by (intro keeps_objs_try chosen_keeps_objs fallback_keeps_objs give_up_keeps_objs)


lemma writes_only_bind:
  "io_writes_only p m \<Longrightarrow> (\<And>x. io_writes_only p (f x)) \<Longrightarrow> io_writes_only p (io_bind m f)"
  unfolding io_writes_only_def io_bind_def
  by (auto split: prod.splits sum.splits) (metis snd_conv)+

lemma writes_only_try:
  "io_writes_only p m \<Longrightarrow> (\<And>e. io_writes_only p (h e)) \<Longrightarrow> io_writes_only p (try_except m h)"
  unfolding io_writes_only_def try_except_def
  by (auto split: prod.splits sum.splits) (metis snd_conv)+

lemma writes_only_basic:
  "io_writes_only p (print_line s)" "io_writes_only p (io_return x)" "io_writes_only p (io_lift r)"
  "io_writes_only p (deref a)"
  by (simp_all add: io_writes_only_def print_line_def io_return_def io_lift_def deref_def)

lemma writes_only_lib:
  assumes "lib_writes_only lib"
  shows "io_writes_only p (overlay lib a b h)" "io_writes_only p (sjoin lib a b h k)"
    "io_writes_only p (to_file lib d p)"
  using assms by (simp_all add: lib_writes_only_def io_keeps_files_def io_writes_only_def)

lemma subset_aoi_writes_only:
  "lib_writes_only lib \<Longrightarrow> io_writes_only fp (subset_aoi lib aoi shape fp i)"
  unfolding subset_aoi_def chosen_def intersect_branch_def join_branch_def fallback_def give_up_def
  by (cases i) (simp_all add: writes_only_bind writes_only_try writes_only_basic writes_only_lib)

lemma join_branch_success:
  assumes run: "join_branch lib aoi shape fp w = (Inr b, w')"
    and wr: "to_file_writes lib" and ko: "lib_keeps_objs lib"
  shows "\<exists>J ids. fst (sjoin lib aoi shape ''inner'' ''intersects'' w) = Inr J \<and>
           getitem_col J ''osm_id'' = Inr ids \<and>
           files w' fp = Some (select_rows (objs w shape) ''osm_id'' ids)"
proof -
  obtain r w1 where sj: "sjoin lib aoi shape ''inner'' ''intersects'' w = (r, w1)"
    by (cases "sjoin lib aoi shape ''inner'' ''intersects'' w")
  have o1: "objs w1 = objs w"
    using keeps_objs_lib(2)[OF ko, of aoi shape "''inner''" "''intersects''"] sj
    by (auto simp: io_keeps_objs_def dest: spec[of _ w])
  from run sj obtain J where J: "r = Inr J"
    by (cases r) (auto simp: join_branch_def io_bind_def)
  from run sj J obtain ids where ids: "getitem_col J ''osm_id'' = Inr ids"
    by (cases "getitem_col J ''osm_id''") (auto simp: join_branch_def io_bind_def io_lift_def)
  from run sj J ids obtain col where col: "getitem_col (objs w1 shape) ''osm_id'' = Inr col"
    by (cases "getitem_col (objs w1 shape) ''osm_id''")
       (auto simp: join_branch_def io_bind_def io_lift_def deref_def)
  let ?d = "getitem_mask (objs w1 shape) (isin col ids)"
  from run sj J ids col have tf: "to_file lib ?d fp w1 = (Inr (), w')"
    by (auto simp: join_branch_def io_bind_def io_lift_def deref_def io_return_def
        split: prod.splits sum.splits)
  from wr tf have "files w' fp = Some ?d"
    by (auto simp: to_file_writes_def dest!: spec[of _ ?d] spec[of _ fp] spec[of _ w1])
  with mask_select[OF col] o1 sj J ids show ?thesis by auto
qed



lemma keeps_objsD: "io_keeps_objs m \<Longrightarrow> m w = (r, w') \<Longrightarrow> objs w' = objs w"
  by (auto simp: io_keeps_objs_def dest: spec[of _ w])

lemma sjoin_functionalD:
  assumes "sjoin_functional lib" and "objs w = objs w'"
  shows "fst (sjoin lib a b h k w) = fst (sjoin lib a b h k w')"
  by (rule assms(1)[unfolded sjoin_functional_def, rule_format]) (simp add: assms(2))

text \<open>
  C2. With \<^verbatim>\<open>intersect=False\<close>, a call that reports success has written to the
  output path the frame \<open>shape\<close> with exactly the rows whose \<^verbatim>\<open>osm_id\<close> cell is
  among the \<^verbatim>\<open>osm_id\<close> cells of the inner spatial join of \<open>aoi\<close> and \<open>shape\<close> under
  the predicate intersects: the rows are rows of \<open>shape\<close>, unchanged and in their order
  (a filter of its row list), and reference system and columns are those of \<open>shape\<close>.
  This holds whether the first attempt or the retry wrote the file. It asks of geopandas
  that \<^verbatim>\<open>to_file\<close> writes the frame it is given, that the calls leave the caller's
  frames alone and that the join is a function of its two frames.
\<close>

theorem subset_aoi_join_writes_selection:
  assumes ok: "fst (subset_aoi lib aoi shape save_fp False w) = Inr True"
    and wr: "to_file_writes lib" and ko: "lib_keeps_objs lib" and fn: "sjoin_functional lib"
  shows "\<exists>J ids. fst (sjoin lib aoi shape ''inner'' ''intersects'' w) = Inr J \<and>
           getitem_col J ''osm_id'' = Inr ids \<and>
           files (snd (subset_aoi lib aoi shape save_fp False w)) save_fp =
             Some ((objs w shape)\<lparr>rows :=
               filter (\<lambda>r. map_of (properties r) ''osm_id'' \<in> set ids) (rows (objs w shape))\<rparr>)"
proof -
  obtain r w1 where first: "join_branch lib aoi shape save_fp w = (r, w1)"
    by (cases "join_branch lib aoi shape save_fp w")
  show ?thesis
  proof (cases r)
    case (Inr b)
    with first have "snd (subset_aoi lib aoi shape save_fp False w) = w1"
      by (simp add: subset_aoi_cases chosen_def)
    with join_branch_success[OF first[unfolded Inr] wr ko] show ?thesis
      by (simp add: select_rows_def)
  next
    case (Inl e)
    let ?w1' = "w1\<lparr>stdout := stdout w1 @ [str_exn e, ''Trying a join method to compare polygon and 1D/dot geometries.'']\<rparr>"
    obtain r2 w2 where second: "join_branch lib aoi shape save_fp ?w1' = (r2, w2)"
      by (cases "join_branch lib aoi shape save_fp ?w1'")
    from ok first Inl second obtain b where r2: "r2 = Inr b"
      by (cases r2) (auto simp: subset_aoi_cases chosen_def fallback_join)
    from first Inl second r2 have fin: "snd (subset_aoi lib aoi shape save_fp False w) = w2"
      by (simp add: subset_aoi_cases chosen_def fallback_join)
    have o1: "objs ?w1' = objs w"
      using keeps_objsD[OF join_branch_keeps_objs[OF ko] first] by simp
    have same: "fst (sjoin lib aoi shape ''inner'' ''intersects'' ?w1') =
        fst (sjoin lib aoi shape ''inner'' ''intersects'' w)"
      by (rule sjoin_functionalD[OF fn o1])
    from join_branch_success[OF second[unfolded r2] wr ko] same o1 fin show ?thesis
      by (simp add: select_rows_def)
  qed
qed

text \<open>
  C8. In either mode and on every path (success at once, success of the retry, failure),
  the objects \<open>aoi\<close> and \<open>shape\<close> refer to are after the call what they were before
  it, and no file but the one at the output path has changed, provided the geopandas calls
  themselves leave the caller's frames alone and write at the path they are given only.
\<close>

theorem subset_aoi_frame:
  assumes "lib_keeps_objs lib" and "lib_writes_only lib"
  shows "objs (snd (subset_aoi lib aoi shape save_fp intersect w)) = objs w \<and>
         (\<forall>q. q \<noteq> save_fp \<longrightarrow>
            files (snd (subset_aoi lib aoi shape save_fp intersect w)) q = files w q)"
  using subset_aoi_keeps_objs[OF assms(1), of aoi shape save_fp intersect]
    subset_aoi_writes_only[OF assms(2), of save_fp aoi shape intersect]
  by (simp add: io_keeps_objs_def io_writes_only_def)


lemmas mask_filter = mask_select[where name = "''osm_id''", unfolded select_rows_def]

lemma join_branch_steps:
  "join_branch lib aoi shape save_fp w =
     (case sjoin lib aoi shape ''inner'' ''intersects'' w of
        (Inl e, w2) \<Rightarrow> (Inl e, w2)
      | (Inr temp_shape, w2) \<Rightarrow>
          (case getitem_col temp_shape ''osm_id'' of
             Inl e \<Rightarrow> (Inl e, w2)
           | Inr osm_id \<Rightarrow>
               (case getitem_col (objs w2 shape) ''osm_id'' of
                  Inl e \<Rightarrow> (Inl e, w2)
                | Inr col \<Rightarrow>
                    (case to_file lib
                        ((objs w2 shape)\<lparr>rows :=
                           filter (\<lambda>r. map_of (properties r) ''osm_id'' \<in> set osm_id)
                             (rows (objs w2 shape))\<rparr>) save_fp w2 of
                       (Inl e, w3) \<Rightarrow> (Inl e, w3)
                     | (Inr u, w3) \<Rightarrow> (Inr True, w3)))))"
  by (simp add: join_branch_def io_bind_def io_lift_def deref_def io_return_def mask_filter
      split: prod.splits sum.splits)

lemma intersect_branch_steps:
  "intersect_branch lib aoi shape save_fp w =
     (case overlay lib aoi shape ''intersection''
             (w\<lparr>stdout := stdout w @ [''Intersecting {save_fp} with aoi...'']\<rparr>) of
        (Inl e, w1) \<Rightarrow> (Inl e, w1)
      | (Inr new, w1) \<Rightarrow>
          (case to_file lib new save_fp
                  (w1\<lparr>stdout := stdout w1 @ [''Dumping to new shapefile to file...'']\<rparr>) of
             (Inl e, w2) \<Rightarrow> (Inl e, w2)
           | (Inr u, w2) \<Rightarrow> (Inr True, w2)))"
  by (simp add: intersect_branch_def io_bind_def print_line_def io_return_def
      split: prod.splits sum.splits)

lemma subset_aoi_retry:
  "subset_aoi lib aoi shape save_fp intersect w =
     (case chosen lib aoi shape save_fp intersect w of
        (Inr r, w1) \<Rightarrow> (Inr True, w1)
      | (Inl e, w1) \<Rightarrow>
          (case join_branch lib aoi shape save_fp
                  (w1\<lparr>stdout := stdout w1 @
                     [str_exn e, ''Trying a join method to compare polygon and 1D/dot geometries.'']\<rparr>) of
             (Inr r, w2) \<Rightarrow> (Inr True, w2)
           | (Inl e2, w2) \<Rightarrow>
               (Inr False, w2\<lparr>stdout := stdout w2 @ [str_exn e2, ''Error dumping to file, giving up!'']\<rparr>)))"
  by (simp add: subset_aoi_cases fallback_join split: prod.splits sum.splits)

text \<open>
  C1. For every library behaviour, every pair of inputs, every output path and both
  values of the flag, \<^verbatim>\<open>subset_aoi\<close> returns a boolean and raises nothing, and
  what it does is spelled out in the library's calls. The chosen computation is run (the
  overlay and its write, or the join strategy); if it returns, the result is \<open>True\<close>.
  If any step of it raises, the error and one message are printed and the join strategy
  is run once more, in the world the failed attempt left: the spatial join of \<open>aoi\<close>
  and \<open>shape\<close> (inner, intersects), the identifiers of the joined rows, the rows of
  \<open>shape\<close> with such an identifier, written to the output path. The result is
  \<open>True\<close> if that returns; if any step of it raises, the error and one message are
  printed and the result is \<open>False\<close>. There is no third attempt.
\<close>

theorem subset_aoi_returns_bool:
  "(\<exists>b. fst (subset_aoi lib aoi shape save_fp intersect w) = Inr b) \<and>
   subset_aoi lib aoi shape save_fp intersect w =
     (let give_up_with = (\<lambda>e w'.
            (Inr False, w'\<lparr>stdout := stdout w' @ [str_exn e, ''Error dumping to file, giving up!'']\<rparr>));
          join_with = (\<lambda>on_error w0.
            case sjoin lib aoi shape ''inner'' ''intersects'' w0 of
              (Inl e, w1) \<Rightarrow> on_error e w1
            | (Inr temp_shape, w1) \<Rightarrow>
                (case getitem_col temp_shape ''osm_id'' of
                   Inl e \<Rightarrow> on_error e w1
                 | Inr osm_id \<Rightarrow>
                     (case getitem_col (objs w1 shape) ''osm_id'' of
                        Inl e \<Rightarrow> on_error e w1
                      | Inr col \<Rightarrow>
                          (case to_file lib
                              ((objs w1 shape)\<lparr>rows :=
                                 filter (\<lambda>r. map_of (properties r) ''osm_id'' \<in> set osm_id)
                                   (rows (objs w1 shape))\<rparr>) save_fp w1 of
                             (Inl e, w2) \<Rightarrow> on_error e w2
                           | (Inr u, w2) \<Rightarrow> (Inr True, w2)))));
          retry = (\<lambda>e w0. join_with give_up_with
            (w0\<lparr>stdout := stdout w0 @
               [str_exn e, ''Trying a join method to compare polygon and 1D/dot geometries.'']\<rparr>))
      in if intersect then
           (case overlay lib aoi shape ''intersection''
                   (w\<lparr>stdout := stdout w @ [''Intersecting {save_fp} with aoi...'']\<rparr>) of
              (Inl e, w1) \<Rightarrow> retry e w1
            | (Inr new, w1) \<Rightarrow>
                (case to_file lib new save_fp
                        (w1\<lparr>stdout := stdout w1 @ [''Dumping to new shapefile to file...'']\<rparr>) of
                   (Inl e, w2) \<Rightarrow> retry e w2
                 | (Inr u, w2) \<Rightarrow> (Inr True, w2)))
         else join_with retry w)"
proof
  show "\<exists>b. fst (subset_aoi lib aoi shape save_fp intersect w) = Inr b"
    by (auto simp: subset_aoi_retry split: prod.splits sum.splits)
next
  show "subset_aoi lib aoi shape save_fp intersect w =
     (let give_up_with = (\<lambda>e w'.
            (Inr False, w'\<lparr>stdout := stdout w' @ [str_exn e, ''Error dumping to file, giving up!'']\<rparr>));
          join_with = (\<lambda>on_error w0.
            case sjoin lib aoi shape ''inner'' ''intersects'' w0 of
              (Inl e, w1) \<Rightarrow> on_error e w1
            | (Inr temp_shape, w1) \<Rightarrow>
                (case getitem_col temp_shape ''osm_id'' of
                   Inl e \<Rightarrow> on_error e w1
                 | Inr osm_id \<Rightarrow>
                     (case getitem_col (objs w1 shape) ''osm_id'' of
                        Inl e \<Rightarrow> on_error e w1
                      | Inr col \<Rightarrow>
                          (case to_file lib
                              ((objs w1 shape)\<lparr>rows :=
                                 filter (\<lambda>r. map_of (properties r) ''osm_id'' \<in> set osm_id)
                                   (rows (objs w1 shape))\<rparr>) save_fp w1 of
                             (Inl e, w2) \<Rightarrow> on_error e w2
                           | (Inr u, w2) \<Rightarrow> (Inr True, w2)))));
          retry = (\<lambda>e w0. join_with give_up_with
            (w0\<lparr>stdout := stdout w0 @
               [str_exn e, ''Trying a join method to compare polygon and 1D/dot geometries.'']\<rparr>))
      in if intersect then
           (case overlay lib aoi shape ''intersection''
                   (w\<lparr>stdout := stdout w @ [''Intersecting {save_fp} with aoi...'']\<rparr>) of
              (Inl e, w1) \<Rightarrow> retry e w1
            | (Inr new, w1) \<Rightarrow>
                (case to_file lib new save_fp
                        (w1\<lparr>stdout := stdout w1 @ [''Dumping to new shapefile to file...'']\<rparr>) of
                   (Inl e, w2) \<Rightarrow> retry e w2
                 | (Inr u, w2) \<Rightarrow> (Inr True, w2)))
         else join_with retry w)"
    by (cases intersect)
       (simp_all add: subset_aoi_retry chosen_def join_branch_steps intersect_branch_steps Let_def
          split: prod.splits sum.splits)
qed

lemma toy_lib_keeps_objs: "lib_keeps_objs toy_lib"
  by (simp add: lib_keeps_objs_def io_keeps_objs_def toy_lib_def toy_overlay_def toy_sjoin_def
      toy_to_file_def)

lemma toy_lib_writes_only: "lib_writes_only toy_lib"
  by (simp add: lib_writes_only_def io_keeps_files_def io_writes_only_def toy_lib_def
      toy_overlay_def toy_sjoin_def toy_to_file_def)

lemma toy_lib_to_file_writes: "to_file_writes toy_lib"
  by (simp add: to_file_writes_def toy_lib_def toy_to_file_def)

lemma toy_lib_sjoin_functional: "sjoin_functional toy_lib"
  by (simp add: sjoin_functional_def toy_lib_def toy_sjoin_def)

lemmas toy_defs = toy_lib_def toy_overlay_def toy_sjoin_def toy_to_file_def toy_world_def
  toy_aoi_def toy_roads_def toy_lanes_def intersects_def

lemmas run_defs = subset_aoi_def chosen_def intersect_branch_def join_branch_def fallback_def
  give_up_def try_except_def io_bind_def io_return_def io_lift_def print_line_def deref_def
  getitem_col_def getitem_mask_def isin_def


lemma toy_join_run:
  "fst (subset_aoi toy_lib 0 1 ''roads_aoi.shp'' False toy_world) = Inr True"
  by (simp add: run_defs toy_defs)

lemma toy_join_file:
  "files (snd (subset_aoi toy_lib 0 1 ''roads_aoi.shp'' False toy_world)) ''roads_aoi.shp'' =
     Some \<lparr>crs = ''EPSG:4326'', columns = [''osm_id''],
       rows = [\<lparr>geometry = Span 5 20, properties = [(''osm_id'', ''7'')]\<rparr>,
               \<lparr>geometry = Point 3, properties = [(''osm_id'', ''9'')]\<rparr>]\<rparr>"
  by (simp add: run_defs toy_defs)

lemma toy_fallback_run:
  "fst (subset_aoi toy_lib 0 1 ''roads_aoi.shp'' True toy_world) = Inr True"
  by (simp add: run_defs toy_defs)


theorem subset_aoi_join_writes_selection_witness:
  "fst (subset_aoi toy_lib 0 1 ''roads_aoi.shp'' False toy_world) = Inr True \<and>
   to_file_writes toy_lib \<and> lib_keeps_objs toy_lib \<and> sjoin_functional toy_lib \<and>
   (\<exists>J ids. fst (sjoin toy_lib 0 1 ''inner'' ''intersects'' toy_world) = Inr J \<and>
      getitem_col J ''osm_id'' = Inr ids \<and>
      files (snd (subset_aoi toy_lib 0 1 ''roads_aoi.shp'' False toy_world)) ''roads_aoi.shp'' =
        Some ((objs toy_world 1)\<lparr>rows :=
          filter (\<lambda>r. map_of (properties r) ''osm_id'' \<in> set ids) (rows (objs toy_world 1))\<rparr>)) \<and>
   files (snd (subset_aoi toy_lib 0 1 ''roads_aoi.shp'' False toy_world)) ''roads_aoi.shp'' =
     Some \<lparr>crs = ''EPSG:4326'', columns = [''osm_id''],
       rows = [\<lparr>geometry = Span 5 20, properties = [(''osm_id'', ''7'')]\<rparr>,
               \<lparr>geometry = Point 3, properties = [(''osm_id'', ''9'')]\<rparr>]\<rparr>"
  by (intro conjI toy_join_run toy_lib_to_file_writes toy_lib_keeps_objs toy_lib_sjoin_functional
      toy_join_file
      subset_aoi_join_writes_selection[OF toy_join_run toy_lib_to_file_writes toy_lib_keeps_objs
        toy_lib_sjoin_functional])

theorem subset_aoi_frame_witness:
  "lib_keeps_objs toy_lib \<and> lib_writes_only toy_lib \<and>
   fst (subset_aoi toy_lib 0 1 ''roads_aoi.shp'' True toy_world) = Inr True \<and>
   objs (snd (subset_aoi toy_lib 0 1 ''roads_aoi.shp'' True toy_world)) = objs toy_world \<and>
   files (snd (subset_aoi toy_lib 0 1 ''roads_aoi.shp'' True toy_world)) ''aoi.shp'' =
     files toy_world ''aoi.shp''"
  using subset_aoi_frame[OF toy_lib_keeps_objs toy_lib_writes_only,
      of 0 1 "''roads_aoi.shp''" True toy_world]
    toy_lib_keeps_objs toy_lib_writes_only toy_fallback_run
  by simp


theorem subset_aoi_returns_bool_witness:
  "fst (subset_aoi toy_lib 0 1 ''roads_aoi.shp'' True toy_world) = Inr True \<and>
   stdout (snd (subset_aoi toy_lib 0 1 ''roads_aoi.shp'' True toy_world)) =
     [''Intersecting {save_fp} with aoi...'', ''overlay takes polygon geometries only'',
      ''Trying a join method to compare polygon and 1D/dot geometries.''] \<and>
   files (snd (subset_aoi toy_lib 0 1 ''roads_aoi.shp'' True toy_world)) ''roads_aoi.shp'' =
     Some \<lparr>crs = ''EPSG:4326'', columns = [''osm_id''],
       rows = [\<lparr>geometry = Span 5 20, properties = [(''osm_id'', ''7'')]\<rparr>,
               \<lparr>geometry = Point 3, properties = [(''osm_id'', ''9'')]\<rparr>]\<rparr> \<and>
   fst (subset_aoi toy_lib 0 1 [] True toy_world) = Inr False \<and>
   stdout (snd (subset_aoi toy_lib 0 1 [] True toy_world)) =
     [''Intersecting {save_fp} with aoi...'', ''overlay takes polygon geometries only'',
      ''Trying a join method to compare polygon and 1D/dot geometries.'',
      ''no such file or directory'', ''Error dumping to file, giving up!'']"
  using subset_aoi_returns_bool[of toy_lib 0 1 "''roads_aoi.shp''" True toy_world]
    subset_aoi_returns_bool[of toy_lib 0 1 "[]" True toy_world]
  by (simp add: Let_def toy_defs getitem_col_def)

section \<open>Properties of load\_shapefile\<close>

text \<open>
  C4. Let \<open>D\<close> be the frame the reader returns for the path. With no identifiers (the
  default, or an empty list) \<^verbatim>\<open>load_shapefile\<close> returns \<open>D\<close> as it is. With a
  non-empty list, and \<open>D\<close> holding the identifier column \<^verbatim>\<open>ZCTA5CE10\<close>, it returns
  \<open>D\<close> with exactly the rows whose identifier cell is in the list, in the order they
  have in \<open>D\<close> (a filter of the row list).
\<close>

theorem load_shapefile_subset:
  assumes "read_file fp = Inr D"
  shows "load_shapefile read_file fp [] = Inr D \<and>
         (zipcodes \<noteq> [] \<and> ''ZCTA5CE10'' \<in> set (columns D) \<longrightarrow>
            load_shapefile read_file fp zipcodes =
              Inr (D\<lparr>rows := filter (\<lambda>r. map_of (properties r) ''ZCTA5CE10'' \<in> set zipcodes) (rows D)\<rparr>))"
proof -
  have "getitem_mask D (isin col zipcodes) = select_rows D ''ZCTA5CE10'' zipcodes"
    if "getitem_col D ''ZCTA5CE10'' = Inr col" for col
    using that by (rule mask_select)
  moreover have "\<exists>col. getitem_col D ''ZCTA5CE10'' = Inr col" if "''ZCTA5CE10'' \<in> set (columns D)"
    using that by (simp add: getitem_col_def)
  ultimately show ?thesis
    using assms by (auto simp: load_shapefile_def select_rows_def)
qed

theorem load_shapefile_subset_witness:
  "toy_read_file ''zcta.shp'' = Inr toy_zcta \<and>
   load_shapefile toy_read_file ''zcta.shp'' [] = Inr toy_zcta \<and>
   [Some ''90001'', Some ''90003''] \<noteq> [] \<and> ''ZCTA5CE10'' \<in> set (columns toy_zcta) \<and>
   load_shapefile toy_read_file ''zcta.shp'' [Some ''90001'', Some ''90003''] =
     Inr \<lparr>crs = ''EPSG:4269'', columns = [''ZCTA5CE10''],
       rows = [\<lparr>geometry = Span 0 1, properties = [(''ZCTA5CE10'', ''90001'')]\<rparr>,
               \<lparr>geometry = Span 2 3, properties = [(''ZCTA5CE10'', ''90003'')]\<rparr>]\<rparr>"
proof -
  have r: "toy_read_file ''zcta.shp'' = Inr toy_zcta" by (simp add: toy_read_file_def)
  show ?thesis
    using load_shapefile_subset[of toy_read_file "''zcta.shp''" toy_zcta
        "[Some ''90001'', Some ''90003'']", OF r] r
    by (simp add: toy_zcta_def)
qed

section \<open>Properties of show\_image\<close>

lemma band_drop:
  assumes "list_all (list_all (\<lambda>px. length px = n)) a" and "b + k < n"
  shows "map (map (\<lambda>px. drop k px ! b)) a = map (map (\<lambda>px. px ! (b + k))) a"
  using assms by (auto simp: list_all_iff add.commute)

lemma band_take:
  assumes "b < k"
  shows "map (map (\<lambda>px. take k px ! b)) a = map (map (\<lambda>px. px ! b)) a"
  using assms by simp

lemma has_bands_drop:
  "list_all (list_all (\<lambda>px. length px = n)) a \<Longrightarrow>
   list_all (list_all (\<lambda>px. length px = n - k)) (map (map (drop k)) a)"
  by (auto simp: list_all_iff)

lemma has_bands_take:
  "list_all (list_all (\<lambda>px. length px = n)) a \<Longrightarrow>
   list_all (list_all (\<lambda>px. length px = min n k)) (map (map (take k)) a)"
  by (auto simp: list_all_iff)

lemma select_bands_spec:
  assumes "has_bands n im"
  shows "(\<exists>v. select_bands True im = Inr v \<and> has_bands (n - 1) v \<and>
            (\<forall>b. b < n - 1 \<longrightarrow> band b v = band (b + 1) im)) \<and>
         (\<exists>v. select_bands False im = Inr v \<and> has_bands (min n 3) v \<and>
            (\<forall>b. b < min n 3 \<longrightarrow> band b v = band b im))"
proof (cases im)
  case (Array2 a)
  with assms show ?thesis by (simp add: has_bands_def)
next
  case (Array3 a)
  with assms have a: "list_all (list_all (\<lambda>px. length px = n)) a"
    by (simp add: has_bands_def)
  have "band b (Array3 (map (map (drop 1)) a)) = band (b + 1) (Array3 a)" if "b < n - 1" for b
    using band_drop[OF a, of b 1] that by (simp add: band_def o_def)
  moreover have "band b (Array3 (map (map (take 3)) a)) = band b (Array3 a)" if "b < min n 3" for b
    using that by (simp add: band_def o_def)
  ultimately show ?thesis
    using Array3 has_bands_drop[OF a, of 1] has_bands_take[OF a, of 3]
    by (simp add: select_bands_def bands_from_def bands_upto_def has_bands_def)
qed


lemma show_image_displayed:
  assumes "image_open lib fp = Inr im" and "show_image lib fp save_path infrared = Inr c"
  shows "select_bands infrared im = Inr (displayed c)"
proof -
  from assms obtain v where v: "select_bands infrared im = Inr v"
    by (cases "select_bands infrared im") (auto simp: show_image_def)
  from assms v obtain view where view: "all_bands v = Inr view"
    by (cases "all_bands v") (auto simp: show_image_def)
  then have "view = v"
    by (cases v) (auto simp: all_bands_def)
  moreover from assms v view have "displayed c = view"
    by (auto simp: show_image_def split: option.splits if_splits)
  ultimately show ?thesis using v by simp
qed

text \<open>
  C10, as stated, fails for one band: a single-band image decodes to an array of two axes,
  and both selections raise IndexError on it.
\<close>

theorem select_bands_one_band_raises:
  "image_bands 1 toy_gray \<and>
   select_bands True toy_gray = Inl (IndexError ''too many indices for array'') \<and>
   select_bands False toy_gray = Inl (IndexError ''too many indices for array'')"
  by (simp add: image_bands_def toy_gray_def select_bands_def bands_from_def bands_upto_def)

text \<open>
  C10, amended. On a decoded image of \<open>n\<close> bands the band selection is decided by the
  number of axes. On an array of three axes (every image of two bands or more) it raises
  nothing: with \<^verbatim>\<open>infrared=True\<close> the result has \<open>n - 1\<close> bands, band \<open>b\<close> of it
  being band \<open>b + 1\<close> of the source (a three-band input gives a two-band array), and
  with \<^verbatim>\<open>infrared=False\<close> it has \<open>min n 3\<close> bands, band \<open>b\<close> of it being band
  \<open>b\<close> of the source. On an array of two axes (a single-band image, \<open>n = 1\<close>) both
  selections raise IndexError.
\<close>

theorem select_bands_by_axes:
  assumes "image_bands n im"
  shows "case im of
           Array3 a \<Rightarrow>
             (\<exists>v. select_bands True im = Inr v \<and> has_bands (n - 1) v \<and>
                (\<forall>b. b < n - 1 \<longrightarrow> band b v = band (b + 1) im)) \<and>
             (\<exists>v. select_bands False im = Inr v \<and> has_bands (min n 3) v \<and>
                (\<forall>b. b < min n 3 \<longrightarrow> band b v = band b im))
         | Array2 a \<Rightarrow>
             n = 1 \<and>
             select_bands True im = Inl (IndexError ''too many indices for array'') \<and>
             select_bands False im = Inl (IndexError ''too many indices for array'')"
proof (cases im)
  case (Array2 a)
  with assms show ?thesis
    by (simp add: image_bands_def select_bands_def bands_from_def bands_upto_def)
next
  case (Array3 a)
  with assms have "has_bands n im"
    by (simp add: image_bands_def has_bands_def)
  from select_bands_spec[OF this] Array3 show ?thesis by simp
qed

theorem select_bands_by_axes_witness:
  "image_bands 3 toy_rgb \<and>
   select_bands True toy_rgb = Inr (Array3 [[[20, 30], [21, 31]]]) \<and>
   has_bands 2 (Array3 [[[20, 30], [21, 31 :: nat]]]) \<and>
   band 0 (Array3 [[[20, 30], [21, 31 :: nat]]]) = band 1 toy_rgb \<and>
   band 1 (Array3 [[[20, 30], [21, 31 :: nat]]]) = band 2 toy_rgb \<and>
   select_bands False toy_rgb = Inr toy_rgb \<and>
   image_bands 1 toy_gray \<and>
   select_bands True toy_gray = Inl (IndexError ''too many indices for array'')"
proof -
  have h: "image_bands 3 toy_rgb" by (simp add: image_bands_def toy_rgb_def)
  have g: "image_bands 1 toy_gray" by (simp add: image_bands_def toy_gray_def)
  from select_bands_by_axes[OF h]
  obtain v where v: "select_bands True toy_rgb = Inr v" "has_bands (3 - 1) v"
    "\<forall>b. b < 3 - 1 \<longrightarrow> band b v = band (b + 1) toy_rgb"
    by (auto simp: toy_rgb_def)
  have c: "select_bands True toy_rgb = Inr (Array3 [[[20, 30], [21, 31]]])"
    by (simp add: select_bands_def bands_from_def toy_rgb_def)
  with v have "v = Array3 [[[20, 30], [21, 31]]]" by simp
  with v h g c select_bands_by_axes[OF g] show ?thesis
    by (simp add: select_bands_def bands_upto_def toy_rgb_def toy_gray_def band_def)
qed

text \<open>
  C5. On a four-band input, \<^verbatim>\<open>infrared=True\<close> selects three bands that are, pixel
  for pixel, bands 1, 2 and 3 of the source, and \<^verbatim>\<open>infrared=False\<close> three bands that
  are bands 0, 1 and 2 of the source; whenever \<^verbatim>\<open>show_image\<close> returns, the array it
  has displayed is that selection.
\<close>

theorem show_image_band_windows:
  assumes op: "image_open lib fp = Inr im" and four: "has_bands 4 im"
  shows "(\<exists>v. select_bands True im = Inr v \<and> has_bands 3 v \<and>
            band 0 v = band 1 im \<and> band 1 v = band 2 im \<and> band 2 v = band 3 im \<and>
            (\<forall>c. show_image lib fp save_path True = Inr c \<longrightarrow> displayed c = v)) \<and>
         (\<exists>v. select_bands False im = Inr v \<and> has_bands 3 v \<and>
            band 0 v = band 0 im \<and> band 1 v = band 1 im \<and> band 2 v = band 2 im \<and>
            (\<forall>c. show_image lib fp save_path False = Inr c \<longrightarrow> displayed c = v))"
proof -
  from select_bands_spec[OF four]
  obtain v1 v2 where
    v1: "select_bands True im = Inr v1" "has_bands (4 - 1) v1"
      "\<forall>b. b < 4 - 1 \<longrightarrow> band b v1 = band (b + 1) im" and
    v2: "select_bands False im = Inr v2" "has_bands (min 4 3) v2"
      "\<forall>b. b < min 4 3 \<longrightarrow> band b v2 = band b im"
    by blast
  from v1(3) have b1: "band 0 v1 = band 1 im" "band 1 v1 = band 2 im" "band 2 v1 = band 3 im"
    by (simp_all add: numeral_3_eq_3 numeral_2_eq_2 less_Suc_eq)
  from v2(3) have b2: "band 0 v2 = band 0 im" "band 1 v2 = band 1 im" "band 2 v2 = band 2 im"
    by simp_all
  have d1: "displayed c = v1" if "show_image lib fp save_path True = Inr c" for c
    using show_image_displayed[OF op that] v1(1) by simp
  have d2: "displayed c = v2" if "show_image lib fp save_path False = Inr c" for c
    using show_image_displayed[OF op that] v2(1) by simp
  from v1 v2 b1 b2 d1 d2 show ?thesis by simp
qed

theorem show_image_band_windows_witness:
  "image_open toy_imagelib ''scene.tif'' = Inr toy_image \<and> has_bands 4 toy_image \<and>
   show_image toy_imagelib ''scene.tif'' [] True =
     Inr \<lparr>displayed = Array3 [[[20, 30, 40], [21, 31, 41]], [[22, 32, 42], [23, 33, 43]]],
          saved_as = None\<rparr> \<and>
   show_image toy_imagelib ''scene.tif'' ''rgb.png'' False =
     Inr \<lparr>displayed = Array3 [[[10, 20, 30], [11, 21, 31]], [[12, 22, 32], [13, 23, 33]]],
          saved_as = Some ''rgb.png''\<rparr> \<and>
   band 0 (Array3 [[[20, 30, 40], [21, 31, 41]], [[22, 32, 42], [23, 33, 43 :: nat]]]) =
     band 1 toy_image"
proof -
  have op: "image_open toy_imagelib ''scene.tif'' = Inr toy_image"
    by (simp add: toy_imagelib_def)
  have four: "has_bands 4 toy_image"
    by (simp add: has_bands_def toy_image_def)
  have s1: "show_image toy_imagelib ''scene.tif'' [] True =
     Inr \<lparr>displayed = Array3 [[[20, 30, 40], [21, 31, 41]], [[22, 32, 42], [23, 33, 43]]],
          saved_as = None\<rparr>"
    by (simp add: show_image_def select_bands_def bands_from_def all_bands_def toy_imagelib_def
        toy_image_def)
  have s2: "show_image toy_imagelib ''scene.tif'' ''rgb.png'' False =
     Inr \<lparr>displayed = Array3 [[[10, 20, 30], [11, 21, 31]], [[12, 22, 32], [13, 23, 33]]],
          saved_as = Some ''rgb.png''\<rparr>"
    by (simp add: show_image_def select_bands_def bands_upto_def all_bands_def toy_imagelib_def
        toy_image_def)
  from show_image_band_windows[OF op four, of "[]"]
  obtain v where "band 0 v = band 1 toy_image"
    "\<forall>c. show_image toy_imagelib ''scene.tif'' [] True = Inr c \<longrightarrow> displayed c = v"
    by blast
  with s1 have "band 0 (Array3 [[[20, 30, 40], [21, 31, 41]], [[22, 32, 42], [23, 33, 43 :: nat]]]) =
     band 1 toy_image" by simp
  with op four s1 s2 show ?thesis by simp
qed

section \<open>Properties of peel\_geodatabase\<close>

lemma write_all_appends:
  "write_all sink fs = sink\<lparr>coll_features := coll_features sink @ fs\<rparr>"
  by (induction fs arbitrary: sink) simp_all

lemma append_properties_map:
  "append_properties acc fs = acc @ map properties fs"
  by (induction fs arbitrary: acc) simp_all

lemma shp_path_inj: "shp_path n = shp_path m \<Longrightarrow> n = m"
  by (simp add: shp_path_def)

lemma csv_path_inj: "csv_path n = csv_path m \<Longrightarrow> n = m"
  by (simp add: csv_path_def)

lemma shp_not_csv: "shp_path n \<noteq> csv_path m"
proof
  assume "shp_path n = csv_path m"
  then have "n @ ''.shp'' = m @ ''.csv''" by (simp add: shp_path_def csv_path_def)
  then have "last (n @ ''.shp'') = last (m @ ''.csv'')" by (rule arg_cong)
  then show False by simp
qed

lemma layer_path_inj: "layer_path n = layer_path m \<Longrightarrow> n = m"
  using shp_not_csv[of n m] shp_not_csv[of m n]
  by (auto simp: layer_path_def dest: shp_path_inj csv_path_inj split: if_splits)

lemma peel_layer_ok:
  assumes "peel_layer lib n d = (Inr u, d')"
  shows "\<exists>c. fiona_open lib (open_kwargs n) = Inr c \<and>
           written d' = (written d)(layer_path n \<mapsto> layer_file lib n c)"
proof -
  from assms obtain c where c: "fiona_open lib (open_kwargs n) = Inr c"
    by (cases "fiona_open lib (open_kwargs n)") (auto simp: peel_layer_def io_bind_def io_lift_def)
  have "write_all \<lparr>coll_crs = coll_crs c, coll_schema = coll_schema c, coll_features = []\<rparr>
          (coll_features c) = c"
    by (simp add: write_all_appends)
  with assms c have "written d' = (written d)(layer_path n \<mapsto> layer_file lib n c)"
    by (auto simp: peel_layer_def io_bind_def io_lift_def print_line_def open_sink_def
        close_sink_def write_text_def layer_path_def layer_file_def append_properties_map
        split: if_splits)
  with c show ?thesis by blast
qed

lemma peel_layers_ok:
  assumes "peel_layers lib ns d = (Inr u, d')"
  shows "(\<forall>n \<in> set ns. \<exists>c. fiona_open lib (open_kwargs n) = Inr c \<and>
            written d' (layer_path n) = Some (layer_file lib n c)) \<and>
         (\<forall>p. p \<notin> layer_path ` set ns \<longrightarrow> written d' p = written d p)"
  using assms
proof (induction ns arbitrary: d)
  case Nil
  then show ?case by (simp add: io_return_def)
next
  case (Cons n ns)
  from Cons.prems obtain u1 d1 where
    one: "peel_layer lib n d = (Inr u1, d1)" and rest: "peel_layers lib ns d1 = (Inr u, d')"
    by (auto simp: io_bind_def split: prod.splits sum.splits)
  from peel_layer_ok[OF one] obtain c where
    c: "fiona_open lib (open_kwargs n) = Inr c" and
    w1: "written d1 = (written d)(layer_path n \<mapsto> layer_file lib n c)"
    by blast
  note ih = Cons.IH[OF rest]
  have here: "\<exists>c. fiona_open lib (open_kwargs n) = Inr c \<and>
      written d' (layer_path n) = Some (layer_file lib n c)"
  proof (cases "n \<in> set ns")
    case True
    with ih show ?thesis by blast
  next
    case False
    then have "layer_path n \<notin> layer_path ` set ns"
      by (auto dest: layer_path_inj)
    with ih have "written d' (layer_path n) = written d1 (layer_path n)" by blast
    with c w1 show ?thesis by simp
  qed
  have others: "written d' p = written d p" if "p \<notin> layer_path ` set (n # ns)" for p
  proof -
    from that have "p \<notin> layer_path ` set ns" "p \<noteq> layer_path n" by auto
    with ih w1 show ?thesis by simp
  qed
  from here ih others show ?case by auto
qed

text \<open>
  C6. When \<^verbatim>\<open>peel_geodatabase\<close> returns, every layer name that
  \<^verbatim>\<open>fiona.listlayers\<close> gave has its one file. For the layer named
  \<^verbatim>\<open>ACS_2016_5YR_BG_06_CALIFORNIA\<close>, and for no other, it is the shapefile at
  \<^verbatim>\<open>./data/ACS2016/<name>.shp\<close>, holding the collection as it was opened: same
  reference system, same schema, the same features in the same order; its
  \<^verbatim>\<open>.csv\<close> path is left as it was. For any other layer it is the text file at
  \<^verbatim>\<open>./data/ACS2016/<name>.csv\<close>, holding \<^verbatim>\<open>to_csv\<close> of the features' property
  rows in their order; its \<^verbatim>\<open>.shp\<close> path is left as it was. No path that is not a
  layer's file is written.
\<close>

theorem peel_geodatabase_one_file_per_layer:
  assumes ll: "listlayers lib datasrc_path = Inr layers"
    and ok: "fst (peel_geodatabase lib d) = Inr ()"
  shows "(\<forall>n \<in> set layers. \<exists>c. fiona_open lib (open_kwargs n) = Inr c \<and>
            (if n = geometry_layer
             then written (snd (peel_geodatabase lib d)) (shp_path n) = Some (Shapefile c) \<and>
                  written (snd (peel_geodatabase lib d)) (csv_path n) = written d (csv_path n)
             else written (snd (peel_geodatabase lib d)) (csv_path n) =
                    Some (TextFile (to_csv lib (map properties (coll_features c)))) \<and>
                  written (snd (peel_geodatabase lib d)) (shp_path n) = written d (shp_path n))) \<and>
         (\<forall>p. p \<notin> layer_path ` set layers \<longrightarrow>
            written (snd (peel_geodatabase lib d)) p = written d p)"
proof -
  from ll have run: "peel_geodatabase lib d = peel_layers lib layers d"
    by (simp add: peel_geodatabase_def io_bind_def io_lift_def)
  with ok obtain d' where d': "peel_layers lib layers d = (Inr (), d')"
    by (cases "peel_layers lib layers d") auto
  note main = peel_layers_ok[OF d']
  have other: "(if n = geometry_layer then csv_path n else shp_path n) \<notin> layer_path ` set layers"
    for n
    using shp_not_csv
    by (auto simp: layer_path_def dest: shp_path_inj csv_path_inj split: if_splits) metis+
  have each: "\<exists>c. fiona_open lib (open_kwargs n) = Inr c \<and>
            (if n = geometry_layer
             then written d' (shp_path n) = Some (Shapefile c) \<and>
                  written d' (csv_path n) = written d (csv_path n)
             else written d' (csv_path n) =
                    Some (TextFile (to_csv lib (map properties (coll_features c)))) \<and>
                  written d' (shp_path n) = written d (shp_path n))"
    if n: "n \<in> set layers" for n
  proof -
    from main n obtain c where c: "fiona_open lib (open_kwargs n) = Inr c"
      "written d' (layer_path n) = Some (layer_file lib n c)" by blast
    from main other[of n]
    have "written d' (if n = geometry_layer then csv_path n else shp_path n) =
          written d (if n = geometry_layer then csv_path n else shp_path n)" by blast
    with c show ?thesis
      by (auto simp: layer_path_def layer_file_def split: if_splits)
  qed
  have fin: "snd (peel_geodatabase lib d) = d'"
    using run d' by simp
  show ?thesis
    unfolding fin using each main by blast
qed

lemma toy_gdb_layers:
  "listlayers toy_gdb datasrc_path = Inr [''X01_AGE_AND_SEX'', geometry_layer]"
  by (simp add: toy_gdb_def)

lemmas peel_defs = peel_geodatabase_def peel_layer_def io_bind_def io_lift_def io_return_def
  print_line_def open_sink_def close_sink_def write_text_def open_kwargs_def toy_gdb_def
  toy_disk_def geometry_layer_def datasrc_path_def shp_path_def csv_path_def

lemma toy_gdb_run: "fst (peel_geodatabase toy_gdb toy_disk) = Inr ()"
  by (simp add: peel_defs)

theorem peel_geodatabase_one_file_per_layer_witness:
  "listlayers toy_gdb datasrc_path = Inr [''X01_AGE_AND_SEX'', geometry_layer] \<and>
   fst (peel_geodatabase toy_gdb toy_disk) = Inr () \<and>
   written (snd (peel_geodatabase toy_gdb toy_disk)) (shp_path geometry_layer) =
     Some (Shapefile toy_blockgroups) \<and>
   written (snd (peel_geodatabase toy_gdb toy_disk)) (csv_path geometry_layer) = None \<and>
   written (snd (peel_geodatabase toy_gdb toy_disk)) (csv_path ''X01_AGE_AND_SEX'') =
     Some (TextFile '',060371011101,1543; ,060371011102,2210; '') \<and>
   written (snd (peel_geodatabase toy_gdb toy_disk)) (shp_path ''X01_AGE_AND_SEX'') = None"
proof -
  note th = peel_geodatabase_one_file_per_layer[OF toy_gdb_layers toy_gdb_run]
  have g: "fiona_open toy_gdb (open_kwargs geometry_layer) = Inr toy_blockgroups"
    by (simp add: toy_gdb_def open_kwargs_def)
  have t: "fiona_open toy_gdb (open_kwargs ''X01_AGE_AND_SEX'') = Inr toy_table"
    by (simp add: toy_gdb_def open_kwargs_def geometry_layer_def)
  have csv: "to_csv toy_gdb (map properties (coll_features toy_table)) =
      '',060371011101,1543; ,060371011102,2210; ''"
    by (simp add: toy_gdb_def toy_table_def)
  have ne: "''X01_AGE_AND_SEX'' \<noteq> geometry_layer"
    by (simp add: geometry_layer_def)
  from th have "\<exists>c. fiona_open toy_gdb (open_kwargs geometry_layer) = Inr c \<and>
      written (snd (peel_geodatabase toy_gdb toy_disk)) (shp_path geometry_layer) = Some (Shapefile c) \<and>
      written (snd (peel_geodatabase toy_gdb toy_disk)) (csv_path geometry_layer) =
        written toy_disk (csv_path geometry_layer)"
    by simp
  with g have a: "written (snd (peel_geodatabase toy_gdb toy_disk)) (shp_path geometry_layer) =
      Some (Shapefile toy_blockgroups)"
    "written (snd (peel_geodatabase toy_gdb toy_disk)) (csv_path geometry_layer) = None"
    by (simp_all add: toy_disk_def)
  from th ne have "\<exists>c. fiona_open toy_gdb (open_kwargs ''X01_AGE_AND_SEX'') = Inr c \<and>
      written (snd (peel_geodatabase toy_gdb toy_disk)) (csv_path ''X01_AGE_AND_SEX'') =
        Some (TextFile (to_csv toy_gdb (map properties (coll_features c)))) \<and>
      written (snd (peel_geodatabase toy_gdb toy_disk)) (shp_path ''X01_AGE_AND_SEX'') =
        written toy_disk (shp_path ''X01_AGE_AND_SEX'')"
    by simp
  with t csv have b: "written (snd (peel_geodatabase toy_gdb toy_disk)) (csv_path ''X01_AGE_AND_SEX'') =
        Some (TextFile '',060371011101,1543; ,060371011102,2210; '')"
    "written (snd (peel_geodatabase toy_gdb toy_disk)) (shp_path ''X01_AGE_AND_SEX'') = None"
    by (simp_all add: toy_disk_def)
  from toy_gdb_layers toy_gdb_run a b show ?thesis by simp
qed

section \<open>Properties of plot\_shapefile\<close>

text \<open>With the default settings the layers are coloured from the palette as long as it
  lasts, the fill and the edge of the i-th layer with its i-th colour; a longer list of
  layers exhausts the iterators. Literal colours serve any number of layers.\<close>

lemma plot_loop_exhausted:
  assumes "d ''edgecolor'' = Some (Iter es)" and "d ''color'' = Some (Iter cs)"
    and "length cs = length es" and "length es < length ss"
  shows "plot_loop d ax ss = Inl StopIteration"
  using assms
proof (induction ss arbitrary: d ax es cs)
  case Nil
  then show ?case by simp
next
  case (Cons s ss)
  show ?case
  proof (cases es)
    case Nil
    with Cons.prems show ?thesis by (simp add: take_colour_def)
  next
    case (Cons e es')
    with Cons.prems obtain c cs' where cs: "cs = c # cs'" by (cases cs) auto
    let ?d2 = "d(''edgecolor'' \<mapsto> Iter es', ''color'' \<mapsto> Iter cs')"
    have "plot_loop ?d2 (ax @ [(s, RGB c, RGB e)]) ss = Inl StopIteration"
      using Cons.prems Cons cs by (intro Cons.IH[of _ es' cs']) auto
    with Cons.prems Cons cs show ?thesis by (simp add: take_colour_def)
  qed
qed

lemma plot_loop_enough:
  assumes "d ''edgecolor'' = Some (Iter es)" and "d ''color'' = Some (Iter cs)"
    and "length cs = length es" and "length ss \<le> length es"
  shows "\<exists>d'. plot_loop d ax ss =
           Inr (ax @ map (\<lambda>(s, c, e). (s, RGB c, RGB e)) (zip ss (zip cs es)), d') \<and>
           d' ''save'' = d ''save'' \<and> d' ''format'' = d ''format''"
  using assms
proof (induction ss arbitrary: d ax es cs)
  case Nil
  then show ?case by simp
next
  case (Cons s ss)
  from Cons.prems obtain e es' where es: "es = e # es'" by (cases es) auto
  with Cons.prems obtain c cs' where cs: "cs = c # cs'" by (cases cs) auto
  let ?d2 = "d(''edgecolor'' \<mapsto> Iter es', ''color'' \<mapsto> Iter cs')"
  have "\<exists>d'. plot_loop ?d2 (ax @ [(s, RGB c, RGB e)]) ss =
           Inr ((ax @ [(s, RGB c, RGB e)]) @ map (\<lambda>(s, c, e). (s, RGB c, RGB e)) (zip ss (zip cs' es')), d') \<and>
           d' ''save'' = ?d2 ''save'' \<and> d' ''format'' = ?d2 ''format''"
    using Cons.prems es cs by (intro Cons.IH[of _ es' cs']) auto
  with Cons.prems es cs show ?case by (simp add: take_colour_def)
qed

lemma plot_shapefile_default_exhausted:
  "length palette < length shapefiles \<Longrightarrow>
   plot_shapefile palette shapefiles None = Inl StopIteration"
  using plot_loop_exhausted[of "default_settings palette" palette palette shapefiles "[]"]
  by (simp add: plot_shapefile_def merge_settings_def default_settings_def)

lemma plot_shapefile_default_enough:
  assumes "length shapefiles \<le> length palette"
  shows "plot_shapefile palette shapefiles None =
     Inr \<lparr>drawn = map (\<lambda>(s, c). (s, RGB c, RGB c)) (zip shapefiles palette),
          grid = False, style = ''whitegrid'', saved = None\<rparr>"
proof -
  from plot_loop_enough[of "default_settings palette" palette palette shapefiles "[]"] assms
  obtain d' where d': "plot_loop (default_settings palette) [] shapefiles =
      Inr (map (\<lambda>(s, c, e). (s, RGB c, RGB e)) (zip shapefiles (zip palette palette)), d')"
    "d' ''save'' = Some (Str [])" "d' ''format'' = Some (Str ''png'')"
    by (auto simp: default_settings_def)
  have "map (\<lambda>(s, c, e). (s, RGB c, RGB e)) (zip shapefiles (zip palette palette)) =
        map (\<lambda>(s, c). (s, RGB c, RGB c)) (zip shapefiles palette)"
    by (induction shapefiles palette rule: list_induct2') auto
  with d' show ?thesis
    by (simp add: plot_shapefile_def merge_settings_def save_figure_def)
qed

lemma plot_loop_literal:
  assumes "d ''edgecolor'' = Some (Str e)" and "d ''color'' = Some (Str c)"
  shows "plot_loop d ax ss = Inr (ax @ map (\<lambda>s. (s, Named c, Named e)) ss, d)"
  using assms by (induction ss arbitrary: ax) (simp_all add: take_colour_def)

text \<open>
  C7. The default colour sources are \<^verbatim>\<open>iter(sns.color_palette("Paired"))\<close>: they
  run through the palette once and do not start over. With the palette's twelve colours
  and thirteen layers, \<^verbatim>\<open>next\<close> raises StopIteration at the thirteenth layer and the
  exception leaves \<^verbatim>\<open>plot_shapefile\<close>: that layer gets no colour and no figure is
  returned.
\<close>

theorem plot_shapefile_palette_exhausted:
  "plot_shapefile [1, 2, 3, 4, 5, 6, 7, 8, 9, 10, 11, 12 :: nat]
     [''l01'', ''l02'', ''l03'', ''l04'', ''l05'', ''l06'', ''l07'', ''l08'', ''l09'', ''l10'',
      ''l11'', ''l12'', ''l13''] None = Inl StopIteration"
  by (simp add: plot_shapefile_def merge_settings_def default_settings_def take_colour_def)

end
